theory Spec2Isabelle
  imports Complex_Main "HOL-Library.Multiset"
begin

section \<open>Data model of the Gantt chart component\<close>

text \<open>
  The component \<^verbatim>\<open>GanttChart\<close> of \<^verbatim>\<open>src/components/GanttChart.tsx\<close> keeps four pieces
  of state (\<^verbatim>\<open>tasks\<close>, \<^verbatim>\<open>formData\<close>, \<^verbatim>\<open>editingTask\<close>, \<^verbatim>\<open>editData\<close>) and a handful of
  pure helpers over them.  A JavaScript \<^verbatim>\<open>Date\<close> is modelled by the integer that
  \<^verbatim>\<open>getTime()\<close> returns for it (milliseconds since the epoch); every date of the component
  comes from \<^verbatim>\<open>new Date()\<close> or from the date picker, whose handlers drop a null date, so
  invalid dates do not occur.  Readings of the clock (\<^verbatim>\<open>Date.now()\<close>, \<^verbatim>\<open>new Date()\<close>) are
  parameters of the functions that take them, one parameter for each reading.
\<close>

record Task =
  task_id :: string
  name :: string
  phase :: string
  startDate :: int
  endDate :: int
  predecessor :: "string option"
  duration :: int

record FormData =
  form_name :: string
  form_phase :: string
  form_startDate :: int
  form_endDate :: int
  form_predecessor :: string

text \<open>
  \<^verbatim>\<open>editData\<close> has the type \<^verbatim>\<open>Partial<Task>\<close>; the component only ever writes the four
  fields below into it.  A field that is absent from the object is \<open>None\<close>.
\<close>

record EditData =
  edit_name :: "string option"
  edit_startDate :: "int option"
  edit_endDate :: "int option"
  edit_predecessor :: "string option"

record state =
  tasks :: "Task list"
  formData :: FormData
  editingTask :: "string option"
  editData :: EditData

record PhaseInfo =
  phase_value :: string
  phase_label :: string
  phase_color :: string

definition phases :: "PhaseInfo list" where
  "phases =
    [\<lparr>phase_value = ''initiating'', phase_label = ''Initiating'',
      phase_color = ''bg-blue-100 text-blue-800''\<rparr>,
     \<lparr>phase_value = ''planning'', phase_label = ''Planning'',
      phase_color = ''bg-green-100 text-green-800''\<rparr>,
     \<lparr>phase_value = ''executing'', phase_label = ''Executing'',
      phase_color = ''bg-yellow-100 text-yellow-800''\<rparr>,
     \<lparr>phase_value = ''monitoring'', phase_label = ''Monitoring'',
      phase_color = ''bg-purple-100 text-purple-800''\<rparr>,
     \<lparr>phase_value = ''closing'', phase_label = ''Closing'',
      phase_color = ''bg-red-100 text-red-800''\<rparr>]"

section \<open>JavaScript numbers and strings\<close>

text \<open>
  The arithmetic of the component is on IEEE doubles.  The model computes with unbounded
  integers and exact rationals instead, and keeps of the doubles the outcome of a division
  by zero, which is \<^verbatim>\<open>NaN\<close> or an infinity and not an exception.  A date and a count of
  days are exact in a double, and so is the difference of two dates less than \<open>2^53\<close>
  milliseconds apart; beyond that the code rounds the difference and the model does not.
  A quotient and its product with 100 are rounded by the code to the nearest double and are
  exact in the model, so the two can differ in the last place (\<open>200/11\<close> in the model is
  \<^verbatim>\<open>18.181818181818183\<close> in the code).  The positions that the theorems below evaluate are
  at inputs where both quotient and product are exact in a double.
\<close>

datatype number = Fin rat | PosInf | NegInf | NaN

definition js_div :: "int \<Rightarrow> int \<Rightarrow> number" where
  "js_div a b =
     (if b \<noteq> 0 then Fin (of_int a / of_int b)
      else if a = 0 then NaN
      else if 0 < a then PosInf else NegInf)"

fun js_times :: "number \<Rightarrow> rat \<Rightarrow> number" where
  "js_times (Fin x) c = Fin (x * c)"
| "js_times NaN c = NaN"
| "js_times PosInf c = (if 0 < c then PosInf else if c < 0 then NegInf else NaN)"
| "js_times NegInf c = (if 0 < c then NegInf else if c < 0 then PosInf else NaN)"

fun Math_max :: "rat \<Rightarrow> number \<Rightarrow> number" where
  "Math_max a (Fin x) = Fin (max a x)"
| "Math_max a NaN = NaN"
| "Math_max a PosInf = PosInf"
| "Math_max a NegInf = Fin a"

fun Math_min :: "rat \<Rightarrow> number \<Rightarrow> number" where
  "Math_min a (Fin x) = Fin (min a x)"
| "Math_min a NaN = NaN"
| "Math_min a PosInf = Fin a"
| "Math_min a NegInf = NegInf"

fun js_plus :: "number \<Rightarrow> number \<Rightarrow> number" where
  "js_plus (Fin x) (Fin y) = Fin (x + y)"
| "js_plus NaN y = NaN"
| "js_plus x NaN = NaN"
| "js_plus PosInf NegInf = NaN"
| "js_plus NegInf PosInf = NaN"
| "js_plus PosInf y = PosInf"
| "js_plus x PosInf = PosInf"
| "js_plus NegInf y = NegInf"
| "js_plus x NegInf = NegInf"

fun js_le :: "number \<Rightarrow> number \<Rightarrow> bool" where
  "js_le NaN y = False"
| "js_le x NaN = False"
| "js_le NegInf y = True"
| "js_le x PosInf = True"
| "js_le (Fin x) (Fin y) = (x \<le> y)"
| "js_le x y = False"

text \<open>
  \<^verbatim>\<open>String.prototype.trim\<close> removes white space and line terminators at both ends.
  Strings are lists of 8-bit characters here, so of the characters that \<^verbatim>\<open>trim\<close> removes
  the model has those below U+0100: tab, line feed, vertical tab, form feed, carriage
  return, space and the no-break space.
\<close>

definition isWhiteSpace :: "char \<Rightarrow> bool" where
  "isWhiteSpace c =
     (let n = (of_char c :: nat) in (9 \<le> n \<and> n \<le> 13) \<or> n = 32 \<or> n = 160)"

definition trim :: "string \<Rightarrow> string" where
  "trim s = rev (dropWhile isWhiteSpace (rev (dropWhile isWhiteSpace s)))"

text \<open>\<^verbatim>\<open>Number.prototype.toString\<close> on an integer: its decimal digits, after a minus sign
  when it is negative.\<close>

definition digit_char :: "int \<Rightarrow> char" where
  "digit_char n = char_of (48 + n)"

function digits :: "int \<Rightarrow> string" where
  "digits n = (if n < 10 then [digit_char n] else digits (n div 10) @ [digit_char (n mod 10)])"
  by pat_completeness auto
termination
  by (relation "measure nat") auto

declare digits.simps [simp del]

definition toString :: "int \<Rightarrow> string" where
  "toString i = (if i < 0 then CHR ''-'' # digits (- i) else digits i)"

section \<open>The component\<close>

definition msPerDay :: int where
  "msPerDay = 1000 * 60 * 60 * 24"

definition calculateDuration :: "int \<Rightarrow> int \<Rightarrow> int" where
  "calculateDuration startDate' endDate' =
     (let diffTime = \<bar>endDate' - startDate'\<bar>
      in \<lceil>(of_int diffTime :: rat) / of_int msPerDay\<rceil> + 1)"

definition freshForm :: "int \<Rightarrow> int \<Rightarrow> FormData" where
  "freshForm d1 d2 =
     \<lparr>form_name = '''', form_phase = ''initiating'', form_startDate = d1,
      form_endDate = d2, form_predecessor = ''''\<rparr>"

definition emptyEdit :: EditData where
  "emptyEdit =
     \<lparr>edit_name = None, edit_startDate = None, edit_endDate = None, edit_predecessor = None\<rparr>"

text \<open>The state after the first render; \<open>d1\<close> and \<open>d2\<close> are the two \<^verbatim>\<open>new Date()\<close> of the
  form's initial value.\<close>

definition initial :: "int \<Rightarrow> int \<Rightarrow> state" where
  "initial d1 d2 =
     \<lparr>tasks = [], formData = freshForm d1 d2, editingTask = None, editData = emptyEdit\<rparr>"

text \<open>\<^verbatim>\<open>addTask\<close>: \<open>now\<close> is the reading of \<^verbatim>\<open>Date.now()\<close>, \<open>d1\<close> and \<open>d2\<close> are the two
  \<^verbatim>\<open>new Date()\<close> of the form's reset.\<close>

definition addTask :: "int \<Rightarrow> int \<Rightarrow> int \<Rightarrow> state \<Rightarrow> state" where
  "addTask now d1 d2 s =
     (let fd = formData s in
      if trim (form_name fd) = [] then s
      else
        let newTask =
          \<lparr>task_id = toString now,
           name = form_name fd,
           phase = form_phase fd,
           startDate = form_startDate fd,
           endDate = form_endDate fd,
           predecessor = (if form_predecessor fd = [] then None else Some (form_predecessor fd)),
           duration = calculateDuration (form_startDate fd) (form_endDate fd)\<rparr>
        in s\<lparr>tasks := tasks s @ [newTask], formData := freshForm d1 d2\<rparr>)"

definition deleteTask :: "string \<Rightarrow> state \<Rightarrow> state" where
  "deleteTask i s = s\<lparr>tasks := filter (\<lambda>task. task_id task \<noteq> i) (tasks s)\<rparr>"

definition startEditing :: "Task \<Rightarrow> state \<Rightarrow> state" where
  "startEditing task s =
     s\<lparr>editingTask := Some (task_id task),
       editData :=
         \<lparr>edit_name = Some (name task),
          edit_startDate = Some (startDate task),
          edit_endDate = Some (endDate task),
          edit_predecessor =
            Some (case predecessor task of None \<Rightarrow> '''' | Some p \<Rightarrow> p)\<rparr>\<rparr>"

text \<open>The object \<^verbatim>\<open>{...task, ...editData, duration: ...}\<close> of \<^verbatim>\<open>saveEdit\<close>: a field present
  in the draft replaces the task's.  A \<^verbatim>\<open>Date\<close> object is truthy, so the test
  \<^verbatim>\<open>editData.startDate && editData.endDate\<close> asks whether both fields are present.\<close>

definition updatedTask :: "EditData \<Rightarrow> Task \<Rightarrow> Task" where
  "updatedTask ed task =
     task\<lparr>name := (case edit_name ed of None \<Rightarrow> name task | Some n \<Rightarrow> n),
          startDate := (case edit_startDate ed of None \<Rightarrow> startDate task | Some d \<Rightarrow> d),
          endDate := (case edit_endDate ed of None \<Rightarrow> endDate task | Some d \<Rightarrow> d),
          predecessor := (case edit_predecessor ed of None \<Rightarrow> predecessor task | Some p \<Rightarrow> Some p),
          duration :=
            (case (edit_startDate ed, edit_endDate ed) of
               (Some ds, Some de) \<Rightarrow> calculateDuration ds de
             | _ \<Rightarrow> duration task)\<rparr>"

text \<open>\<^verbatim>\<open>!editingTask\<close> holds of \<^verbatim>\<open>null\<close> and of the empty string.\<close>

definition saveEdit :: "state \<Rightarrow> state" where
  "saveEdit s =
     (case editingTask s of
        None \<Rightarrow> s
      | Some eid \<Rightarrow>
          if eid = [] then s
          else s\<lparr>tasks := map (\<lambda>task. if task_id task = eid then updatedTask (editData s) task
                                      else task) (tasks s),
                 editingTask := None,
                 editData := emptyEdit\<rparr>)"

definition cancelEdit :: "state \<Rightarrow> state" where
  "cancelEdit s = s\<lparr>editingTask := None, editData := emptyEdit\<rparr>"

text \<open>The result of \<^verbatim>\<open>getTasksByPhase\<close> is an object whose keys are written in the order
  of \<^verbatim>\<open>phases\<close>: an association list in that order.\<close>

definition getTasksByPhase :: "Task list \<Rightarrow> (string \<times> Task list) list" where
  "getTasksByPhase ts =
     map (\<lambda>p. (phase_value p, filter (\<lambda>task. phase task = phase_value p) ts)) phases"

record Timeline =
  tl_startDate :: int
  tl_endDate :: int
  totalDays :: int

text \<open>\<^verbatim>\<open>getTimelineData\<close>; \<open>d1\<close> and \<open>d2\<close> are the two \<^verbatim>\<open>new Date()\<close> of the empty case.
  With a task in the list, \<^verbatim>\<open>dates\<close> is not empty and \<^verbatim>\<open>Math.min\<close>, \<^verbatim>\<open>Math.max\<close> return
  its least and greatest element.\<close>

definition getTimelineData :: "int \<Rightarrow> int \<Rightarrow> Task list \<Rightarrow> Timeline" where
  "getTimelineData d1 d2 ts =
     (if length ts = 0 then \<lparr>tl_startDate = d1, tl_endDate = d2, totalDays = 1\<rparr>
      else
        let dates = concat (map (\<lambda>task. [startDate task, endDate task]) ts);
            minDate = Min (set dates);
            maxDate = Max (set dates);
            nDays = \<lceil>(of_int (maxDate - minDate) :: rat) / of_int msPerDay\<rceil> + 1
        in \<lparr>tl_startDate = minDate, tl_endDate = maxDate, totalDays = nDays\<rparr>)"

record Position =
  left :: number
  width :: number

definition getTaskPosition :: "Task \<Rightarrow> int \<Rightarrow> int \<Rightarrow> Position" where
  "getTaskPosition task timelineStart nDays =
     (let taskStart = \<lfloor>(of_int (startDate task - timelineStart) :: rat) / of_int msPerDay\<rfloor>
      in \<lparr>left = js_times (js_div taskStart nDays) 100,
          width = js_times (js_div (duration task) nDays) 100\<rparr>)"

text \<open>\<^verbatim>\<open>getProgressPercentage\<close>; \<open>today\<close> is its \<^verbatim>\<open>new Date()\<close>.\<close>

definition getProgressPercentage :: "int \<Rightarrow> Task \<Rightarrow> number" where
  "getProgressPercentage today task =
     (if today < startDate task then Fin 0
      else if today > endDate task then Fin 100
      else
        let totalDuration = endDate task - startDate task;
            elapsed = today - startDate task
        in Math_min 100 (Math_max 0 (js_times (js_div elapsed totalDuration) 100)))"

section \<open>User actions\<close>

text \<open>The handlers that the rendered controls call, as events; \<open>step\<close> is what each does
  to the state.  The inline handlers of the inputs write one field of \<^verbatim>\<open>formData\<close> or of
  \<^verbatim>\<open>editData\<close>.  An event is not restricted to the states in which its control is rendered
  or enabled, so every run of the component is a run of the model; each handler runs to
  completion on the state the previous one left.\<close>

datatype event =
    FormName string
  | FormPhase string
  | FormStart int
  | FormEnd int
  | FormPredecessor string
  | AddTask int int int
  | DeleteTask string
  | StartEditing Task
  | EditName string
  | EditStart int
  | EditEnd int
  | EditPredecessor string
  | SaveEdit
  | CancelEdit

fun step :: "event \<Rightarrow> state \<Rightarrow> state" where
  "step (FormName v) s = s\<lparr>formData := (formData s)\<lparr>form_name := v\<rparr>\<rparr>"
| "step (FormPhase v) s = s\<lparr>formData := (formData s)\<lparr>form_phase := v\<rparr>\<rparr>"
| "step (FormStart d) s = s\<lparr>formData := (formData s)\<lparr>form_startDate := d\<rparr>\<rparr>"
| "step (FormEnd d) s = s\<lparr>formData := (formData s)\<lparr>form_endDate := d\<rparr>\<rparr>"
| "step (FormPredecessor v) s = s\<lparr>formData := (formData s)\<lparr>form_predecessor := v\<rparr>\<rparr>"
| "step (AddTask now d1 d2) s = addTask now d1 d2 s"
| "step (DeleteTask i) s = deleteTask i s"
| "step (StartEditing task) s = startEditing task s"
| "step (EditName v) s = s\<lparr>editData := (editData s)\<lparr>edit_name := Some v\<rparr>\<rparr>"
| "step (EditStart d) s = s\<lparr>editData := (editData s)\<lparr>edit_startDate := Some d\<rparr>\<rparr>"
| "step (EditEnd d) s = s\<lparr>editData := (editData s)\<lparr>edit_endDate := Some d\<rparr>\<rparr>"
| "step (EditPredecessor v) s = s\<lparr>editData := (editData s)\<lparr>edit_predecessor := Some v\<rparr>\<rparr>"
| "step SaveEdit s = saveEdit s"
| "step CancelEdit s = cancelEdit s"

fun run :: "event list \<Rightarrow> state \<Rightarrow> state" where
  "run [] s = s"
| "run (e # es) s = run es (step e s)"

text \<open>The render of the timeline reads the axis once (\<^verbatim>\<open>const { startDate: timelineStart,
  totalDays } = getTimelineData()\<close>) and places each task's bar with it.\<close>

definition barPosition :: "int \<Rightarrow> int \<Rightarrow> Task list \<Rightarrow> Task \<Rightarrow> Position" where
  "barPosition d1 d2 ts task =
     (let tl = getTimelineData d1 d2 ts
      in getTaskPosition task (tl_startDate tl) (totalDays tl))"

section \<open>Notions of the specification and concrete stores\<close>

text \<open>A date is day-normalized when it is midnight of a day in the zone whose offset from
  UTC is \<open>tz\<close> milliseconds.\<close>

definition dayNormalized :: "int \<Rightarrow> int \<Rightarrow> bool" where
  "dayNormalized tz d = ((d - tz) mod msPerDay = 0)"

text \<open>Midnight (UTC) of the \<open>d\<close>-th of January 2024.\<close>

definition jan :: "int \<Rightarrow> int" where
  "jan d = 1704067200000 + (d - 1) * msPerDay"

text \<open>The values of the \<^verbatim>\<open>phases\<close> table, in its order.\<close>

definition phaseValues :: "string list" where
  "phaseValues = map phase_value phases"

text \<open>The store of the specification's scenario: task A from the 1st to the 5th of
  January and task B from the 3rd to the 10th, entered through the form.\<close>

definition scenarioEvents :: "event list" where
  "scenarioEvents =
     [FormName ''A'', FormStart (jan 1), FormEnd (jan 5),
      AddTask 1717000000000 1717000000000 1717000000000,
      FormName ''B'', FormStart (jan 3), FormEnd (jan 10),
      AddTask 1717000060000 1717000060000 1717000060000]"

definition scenarioStore :: state where
  "scenarioStore = run scenarioEvents (initial 1716999000000 1716999000000)"

definition scenarioTasks :: "Task list" where
  "scenarioTasks = tasks scenarioStore"

text \<open>A store with one task whose end date is earlier than its start date.  Only the end
  date picker is bounded (\<^verbatim>\<open>minDate={formData.startDate}\<close>); the start date picker does not
  look at the end date, so after both dates were set to the 1st of January the form
  accepts the 5th as the start.\<close>

definition reversedEvents :: "event list" where
  "reversedEvents =
     [FormName ''R'', FormStart (jan 1), FormEnd (jan 1), FormStart (jan 5),
      AddTask 1717000000000 1717000000000 1717000000000]"

definition reversedTasks :: "Task list" where
  "reversedTasks = tasks (run reversedEvents (initial 1716999000000 1716999000000))"

text \<open>The scenario's store with task A in edit mode.\<close>

definition editingStore :: state where
  "editingStore = startEditing (scenarioTasks ! 0) scenarioStore"

text \<open>Two tasks, the second with a phase outside the table.\<close>

definition strayTasks :: "Task list" where
  "strayTasks = [scenarioTasks ! 0, (scenarioTasks ! 1)\<lparr>phase := ''review''\<rparr>]"

text \<open>The ids of the tasks that the \<^verbatim>\<open>addTask\<close> calls of a run append, in the order of
  their creation, and the readings of \<^verbatim>\<open>Date.now()\<close> in the calls that append a task.\<close>

fun issuedIds :: "event list \<Rightarrow> state \<Rightarrow> string list" where
  "issuedIds [] s = []"
| "issuedIds (AddTask now d1 d2 # es) s =
     map task_id (drop (length (tasks s)) (tasks (addTask now d1 d2 s)))
       @ issuedIds es (addTask now d1 d2 s)"
| "issuedIds (e # es) s = issuedIds es (step e s)"

fun addClocks :: "event list \<Rightarrow> state \<Rightarrow> int list" where
  "addClocks [] s = []"
| "addClocks (AddTask now d1 d2 # es) s =
     (if length (tasks (addTask now d1 d2 s)) = length (tasks s) then [] else [now])
       @ addClocks es (addTask now d1 d2 s)"
| "addClocks (e # es) s = addClocks es (step e s)"











text \<open>Two runs in which \<^verbatim>\<open>Date.now()\<close> reads the same millisecond in two \<^verbatim>\<open>addTask\<close>
  calls; in the second run the first task is deleted in between.\<close>

definition clashEvents :: "event list" where
  "clashEvents =
     [FormName ''A'', AddTask 1717000000000 1717000000000 1717000000000,
      FormName ''B'', AddTask 1717000000000 1717000000000 1717000000000]"

definition reuseEvents :: "event list" where
  "reuseEvents =
     [FormName ''A'', AddTask 1717000000000 1717000000000 1717000000000,
      DeleteTask ''1717000000000'',
      FormName ''B'', AddTask 1717000000000 1717000000000 1717000000000]"

text \<open>Reading a decimal rendering back.\<close>

definition undigits :: "string \<Rightarrow> int" where
  "undigits s = foldl (\<lambda>a c. 10 * a + (of_char c - 48)) 0 s"

text \<open>The scenario, then task A deleted and a task C added.\<close>

definition lifecycleEvents :: "event list" where
  "lifecycleEvents =
     scenarioEvents @
     [DeleteTask ''1717000000000'', FormName ''C'',
      AddTask 1717000120000 1717000120000 1717000120000]"

section \<open>The empty chart\<close>

text \<open>
  C7.  \<^verbatim>\<open>getTimelineData\<close> on the empty task list returns the degenerate axis: its start
  and its end are the current date (each the reading of its own \<^verbatim>\<open>new Date()\<close>) and
  \<open>totalDays\<close> is 1, not 0.
\<close>

theorem getTimelineData_empty:
  "getTimelineData d1 d2 [] = \<lparr>tl_startDate = d1, tl_endDate = d2, totalDays = 1\<rparr>
   \<and> totalDays (getTimelineData d1 d2 []) = 1
   \<and> totalDays (getTimelineData d1 d2 []) \<noteq> 0"
  by (simp add: getTimelineData_def)

section \<open>Cancelling an edit\<close>

text \<open>
  C8.  \<^verbatim>\<open>startEditing\<close> on a task followed by \<^verbatim>\<open>cancelEdit\<close> leaves the task collection as
  it was: the target task is identical field for field, and so is every other task.
\<close>

theorem startEditing_cancelEdit_tasks:
  "tasks (cancelEdit (startEditing task s)) = tasks s"
  by (simp add: cancelEdit_def startEditing_def)

section \<open>The scenario of two tasks\<close>

text \<open>
  C1.  For the two tasks A (1st to 5th of January 2024) and B (3rd to 10th), with
  day-normalized dates, the axis starts on the 1st, ends on the 10th and has
  \<open>totalDays = 10\<close>; the durations are 5 and 8; A's bar is at left 0 with width 50, B's at
  left 20 with width 80.
\<close>

theorem scenario_axis_and_positions:
  "map name scenarioTasks = [''A'', ''B'']
   \<and> map startDate scenarioTasks = [jan 1, jan 3]
   \<and> map endDate scenarioTasks = [jan 5, jan 10]
   \<and> dayNormalized 0 (jan 1) \<and> dayNormalized 0 (jan 3)
   \<and> dayNormalized 0 (jan 5) \<and> dayNormalized 0 (jan 10)
   \<and> getTimelineData 1717000100000 1717000100000 scenarioTasks
        = \<lparr>tl_startDate = jan 1, tl_endDate = jan 10, totalDays = 10\<rparr>
   \<and> map duration scenarioTasks = [5, 8]
   \<and> map (barPosition 1717000100000 1717000100000 scenarioTasks) scenarioTasks
        = [\<lparr>left = Fin 0, width = Fin 50\<rparr>, \<lparr>left = Fin 20, width = Fin 80\<rparr>]"
  by code_simp

section \<open>Bars and the axis\<close>

text \<open>
  C2.  The claim bounds left plus width by 100, up to rounding, for every task of every
  non-empty set with day-normalized dates.  The code does not keep the bound for a task
  whose end date is earlier than its start date.  \<^verbatim>\<open>calculateDuration\<close> takes the absolute
  difference of the two dates and \<^verbatim>\<open>getTimelineData\<close> the least and the greatest of all
  start and end dates, so both treat such a task by its span; \<^verbatim>\<open>getTaskPosition\<close> alone
  starts the bar at \<^verbatim>\<open>startDate\<close>, the later end of the span, and draws the whole duration
  to the right of it.  The store \<open>reversedTasks\<close> holds one task, entered through the form,
  from the 5th of January back to the 1st: its duration is 5, the axis runs from the 1st
  to the 5th with 5 days, and the bar is at left 80 with width 100 (\<^verbatim>\<open>(4 / 5) * 100\<close> and
  \<^verbatim>\<open>(5 / 5) * 100\<close> are 80 and 100 in doubles as well), so left plus width is 180.
\<close>

theorem reversed_task_overflows_axis:
  "map startDate reversedTasks = [jan 5]
   \<and> map endDate reversedTasks = [jan 1]
   \<and> dayNormalized 0 (jan 5) \<and> dayNormalized 0 (jan 1)
   \<and> map duration reversedTasks = [calculateDuration (jan 5) (jan 1)]
   \<and> map duration reversedTasks = [5]
   \<and> getTimelineData 1717000100000 1717000100000 reversedTasks
        = \<lparr>tl_startDate = jan 1, tl_endDate = jan 5, totalDays = 5\<rparr>
   \<and> barPosition 1717000100000 1717000100000 reversedTasks (reversedTasks ! 0)
        = \<lparr>left = Fin 80, width = Fin 100\<rparr>
   \<and> \<not> js_le (js_plus
          (left (barPosition 1717000100000 1717000100000 reversedTasks (reversedTasks ! 0)))
          (width (barPosition 1717000100000 1717000100000 reversedTasks (reversedTasks ! 0))))
        (Fin 101)"
  by code_simp

section \<open>Progress of a zero-length span\<close>

lemma progress_after_end:
  "startDate task \<le> today \<Longrightarrow> endDate task < today \<Longrightarrow>
   getProgressPercentage today task = Fin 100"
  by (simp add: getProgressPercentage_def)

text \<open>
  C3.  The claim wants progress 100 for a task whose start and end are the same date \<open>d\<close>
  whenever today is \<open>d\<close> or later.  Later than \<open>d\<close> the code returns 100
  (\<open>progress_after_end\<close>).  At \<open>d\<close> itself neither guard applies, the span
  \<open>totalDuration\<close> is 0, and the quotient \<^verbatim>\<open>0 / 0\<close> is \<^verbatim>\<open>NaN\<close>, which \<^verbatim>\<open>Math.max\<close> and
  \<^verbatim>\<open>Math.min\<close> hand on.
\<close>

theorem progress_zero_span_is_NaN:
  "getProgressPercentage d (task\<lparr>startDate := d, endDate := d\<rparr>) = NaN"
  by (simp add: getProgressPercentage_def js_div_def)

section \<open>Adding a task with a blank name\<close>

lemma trim_blank:
  assumes "\<forall>c \<in> set s. isWhiteSpace c"
  shows "trim s = []"
proof -
  have "dropWhile isWhiteSpace s = []" using assms by simp
  then show ?thesis unfolding trim_def by (simp only: rev.simps dropWhile.simps)
qed

text \<open>
  C6.  When the name in the form is empty or consists of white space only, \<^verbatim>\<open>addTask\<close>
  returns without an error and changes nothing: the task collection (and the rest of the
  state) is what it was.
\<close>

theorem addTask_blank_name:
  "\<forall>c \<in> set (form_name (formData s)). isWhiteSpace c \<Longrightarrow> addTask now d1 d2 s = s"
  by (simp add: addTask_def trim_blank)

theorem addTask_blank_name_witness:
  "list_all isWhiteSpace ''   ''
   \<and> addTask 1717000120000 1717000120000 1717000120000 (step (FormName ''   '') scenarioStore)
       = step (FormName ''   '') scenarioStore
   \<and> form_name (formData scenarioStore) = []
   \<and> addTask 1717000120000 1717000120000 1717000120000 scenarioStore = scenarioStore"
proof -
  have blank: "\<forall>c \<in> set ''   ''. isWhiteSpace c"
    by (simp add: isWhiteSpace_def)
  have empty: "form_name (formData scenarioStore) = []"
    by code_simp
  have "\<forall>c \<in> set (form_name (formData (step (FormName ''   '') scenarioStore))). isWhiteSpace c"
    using blank by simp
  from addTask_blank_name [OF this] addTask_blank_name [of scenarioStore] blank empty
  show ?thesis by (simp add: Ball_set [symmetric])
qed

section \<open>Committing after the edited task was deleted\<close>

lemma map_after_filter:
  "map (\<lambda>task. if task_id task = t then f task else task)
       (filter (\<lambda>task. task_id task \<noteq> t) ts)
     = filter (\<lambda>task. task_id task \<noteq> t) ts"
  by (induction ts) auto

text \<open>
  C9.  A draft is active for the id \<open>t\<close> when \<^verbatim>\<open>editingTask\<close> is \<open>t\<close> and passes the test of
  \<^verbatim>\<open>saveEdit\<close>, that is, \<open>t\<close> is not the empty string.  Then \<^verbatim>\<open>saveEdit\<close> after
  \<^verbatim>\<open>deleteTask(t)\<close> leaves the task collection as the deletion left it (no task has the id
  \<open>t\<close>, none is modified) and clears the draft.
\<close>

theorem deleteTask_saveEdit:
  "editingTask s = Some t \<Longrightarrow> t \<noteq> [] \<Longrightarrow>
     tasks (saveEdit (deleteTask t s)) = tasks (deleteTask t s)
   \<and> (\<forall>task \<in> set (tasks (saveEdit (deleteTask t s))). task_id task \<noteq> t)
   \<and> editingTask (saveEdit (deleteTask t s)) = None
   \<and> editData (saveEdit (deleteTask t s)) = emptyEdit"
  by (simp add: saveEdit_def deleteTask_def map_after_filter)

theorem deleteTask_saveEdit_witness:
  "editingTask editingStore = Some ''1717000000000''
   \<and> ''1717000000000'' \<noteq> []
   \<and> tasks (saveEdit (deleteTask ''1717000000000'' editingStore)) = [scenarioTasks ! 1]
   \<and> editingTask (saveEdit (deleteTask ''1717000000000'' editingStore)) = None
   \<and> editData (saveEdit (deleteTask ''1717000000000'' editingStore)) = emptyEdit"
proof -
  have h1: "editingTask editingStore = Some ''1717000000000''"
    by code_simp
  have h2: "''1717000000000'' \<noteq> []"
    by simp
  have rest: "tasks (deleteTask ''1717000000000'' editingStore) = [scenarioTasks ! 1]"
    by code_simp
  from deleteTask_saveEdit [OF h1 h2] rest h1 show ?thesis
    by simp
qed

section \<open>Grouping by phase\<close>

lemma phaseValues_eq:
  "phaseValues = [''initiating'', ''planning'', ''executing'', ''monitoring'', ''closing'']"
  by (simp add: phaseValues_def phases_def)

lemma distinct_phaseValues: "distinct phaseValues"
  by (simp add: phaseValues_eq)

lemma groups_eq:
  "map snd (getTasksByPhase ts) = map (\<lambda>p. filter (\<lambda>task. phase task = p) ts) phaseValues"
  by (simp add: getTasksByPhase_def phaseValues_def comp_def)

lemma mset_filter_split:
  "p \<notin> set ps \<Longrightarrow>
   mset (filter (\<lambda>t. f t = p) ts) + mset (filter (\<lambda>t. f t \<in> set ps) ts)
     = mset (filter (\<lambda>t. f t = p \<or> f t \<in> set ps) ts)"
  by (induction ts) auto

lemma mset_concat_groups:
  "distinct ps \<Longrightarrow>
   mset (concat (map (\<lambda>p. filter (\<lambda>t. f t = p) ts) ps))
     = mset (filter (\<lambda>t. f t \<in> set ps) ts)"
proof (induction ps)
  case Nil
  then show ?case by simp
next
  case (Cons p ps)
  then show ?case using mset_filter_split [of p ps f ts] by simp
qed

lemma mset_filter_all: "mset (filter P ts) = mset ts \<longleftrightarrow> (\<forall>t \<in> set ts. P t)"
proof
  assume "mset (filter P ts) = mset ts"
  then have "length (filter P ts) = length ts" by (metis size_mset)
  then show "\<forall>t \<in> set ts. P t" by (metis length_filter_less less_irrefl)
next
  assume "\<forall>t \<in> set ts. P t"
  then show "mset (filter P ts) = mset ts" by simp
qed

text \<open>
  C10.  \<^verbatim>\<open>getTasksByPhase\<close> returns the five keys of the \<^verbatim>\<open>phases\<close> table in its order.
  A task whose phase is none of the five is in none of the groups, and the groups
  together are a permutation of the tasks exactly when every task's phase is one of the
  five.
\<close>

theorem getTasksByPhase_groups:
  "map fst (getTasksByPhase ts)
     = [''initiating'', ''planning'', ''executing'', ''monitoring'', ''closing'']
   \<and> (\<forall>task \<in> set ts. phase task \<notin> set phaseValues \<longrightarrow>
         (\<forall>g \<in> set (getTasksByPhase ts). task \<notin> set (snd g)))
   \<and> (mset (concat (map snd (getTasksByPhase ts))) = mset ts
        \<longleftrightarrow> (\<forall>task \<in> set ts. phase task \<in> set phaseValues))"
proof (intro conjI)
  show "map fst (getTasksByPhase ts)
      = [''initiating'', ''planning'', ''executing'', ''monitoring'', ''closing'']"
    by (simp add: getTasksByPhase_def phases_def)
  show "\<forall>task \<in> set ts. phase task \<notin> set phaseValues \<longrightarrow>
         (\<forall>g \<in> set (getTasksByPhase ts). task \<notin> set (snd g))"
    by (auto simp: getTasksByPhase_def phaseValues_def)
  show "mset (concat (map snd (getTasksByPhase ts))) = mset ts
        \<longleftrightarrow> (\<forall>task \<in> set ts. phase task \<in> set phaseValues)"
    by (simp only: groups_eq mset_concat_groups [OF distinct_phaseValues] mset_filter_all)
qed

theorem getTasksByPhase_groups_witness:
  "strayTasks ! 1 \<in> set strayTasks
   \<and> phase (strayTasks ! 1) = ''review''
   \<and> phase (strayTasks ! 1) \<notin> set phaseValues
   \<and> list_all (\<lambda>g. strayTasks ! 1 \<notin> set (snd g)) (getTasksByPhase strayTasks)
   \<and> mset (concat (map snd (getTasksByPhase strayTasks))) \<noteq> mset strayTasks
   \<and> list_all (\<lambda>task. phase task \<in> set phaseValues) scenarioTasks
   \<and> mset (concat (map snd (getTasksByPhase scenarioTasks))) = mset scenarioTasks"
proof -
  have m: "strayTasks ! 1 \<in> set strayTasks"
    by (simp add: strayTasks_def)
  have p: "phase (strayTasks ! 1) = ''review''"
    by (simp add: strayTasks_def)
  have out: "phase (strayTasks ! 1) \<notin> set phaseValues"
    by (simp add: strayTasks_def phaseValues_eq)
  have good: "\<forall>task \<in> set scenarioTasks. phase task \<in> set phaseValues"
    by code_simp
  from getTasksByPhase_groups [of strayTasks] getTasksByPhase_groups [of scenarioTasks]
    m p out good
  show ?thesis unfolding Ball_set [symmetric] by blast
qed

section \<open>Decimal rendering is injective\<close>

lemma of_char_digit_char:
  "0 \<le> n \<Longrightarrow> n < 10 \<Longrightarrow> (of_char (digit_char n) :: int) = 48 + n"
  by (simp add: digit_char_def)

lemma undigits_snoc: "undigits (s @ [c]) = 10 * undigits s + (of_char c - 48)"
  by (simp add: undigits_def)

lemma undigits_digits: "0 \<le> n \<Longrightarrow> undigits (digits n) = n"
proof (induction n rule: digits.induct)
  case (1 n)
  show ?case
  proof (cases "n < 10")
    case True
    then have "digits n = [digit_char n]" by (simp add: digits.simps)
    then show ?thesis using True "1.prems" by (simp add: undigits_def of_char_digit_char)
  next
    case False
    then have d: "digits n = digits (n div 10) @ [digit_char (n mod 10)]"
      by (subst digits.simps) simp
    have "undigits (digits (n div 10)) = n div 10"
      using "1.IH" False "1.prems" by simp
    then show ?thesis
      by (simp add: d undigits_snoc of_char_digit_char)
  qed
qed


lemma digit_char_not_minus: "0 \<le> n \<Longrightarrow> n < 10 \<Longrightarrow> digit_char n \<noteq> CHR ''-''"
proof
  assume "0 \<le> n" "n < 10" "digit_char n = CHR ''-''"
  then have "(of_char (CHR ''-'') :: int) = 48 + n" using of_char_digit_char by metis
  then show False using \<open>0 \<le> n\<close> by simp
qed

lemma digits_no_minus: "0 \<le> n \<Longrightarrow> CHR ''-'' \<notin> set (digits n)"
proof (induction n rule: digits.induct)
  case (1 n)
  show ?case
  proof (cases "n < 10")
    case True
    then have "digits n = [digit_char n]" by (simp add: digits.simps)
    then show ?thesis using True "1.prems" digit_char_not_minus [of n] by auto
  next
    case False
    then have d: "digits n = digits (n div 10) @ [digit_char (n mod 10)]"
      by (subst digits.simps) simp
    have "CHR ''-'' \<notin> set (digits (n div 10))"
      using "1.IH" False "1.prems" by simp
    moreover have "digit_char (n mod 10) \<noteq> CHR ''-''"
      by (rule digit_char_not_minus) simp_all
    ultimately show ?thesis by (simp add: d)
  qed
qed

lemma toString_inj: "toString i = toString j \<Longrightarrow> i = j"
proof -
  assume eq: "toString i = toString j"
  have neg: False if "a < 0" "\<not> b < 0" "toString a = toString b" for a b
  proof -
    from that have "CHR ''-'' # digits (- a) = digits b" by (simp add: toString_def)
    then have "CHR ''-'' \<in> set (digits b)" by (metis list.set_intros(1))
    then show False using digits_no_minus [of b] that by simp
  qed
  consider "i < 0" "j < 0" | "i < 0" "\<not> j < 0" | "\<not> i < 0" "j < 0" | "\<not> i < 0" "\<not> j < 0"
    by blast
  then show "i = j"
  proof cases
    case 1
    then have "digits (- i) = digits (- j)" using eq by (simp add: toString_def)
    then have "undigits (digits (- i)) = undigits (digits (- j))" by simp
    then show ?thesis using 1 by (simp add: undigits_digits)
  next
    case 2
    then show ?thesis using neg [of i j] eq by simp
  next
    case 3
    then show ?thesis using neg [of j i] eq by simp
  next
    case 4
    then have "digits i = digits j" using eq by (simp add: toString_def)
    then have "undigits (digits i) = undigits (digits j)" by simp
    then show ?thesis using 4 by (simp add: undigits_digits)
  qed
qed


section \<open>What holds of every store\<close>


lemma updatedTask_id: "task_id (updatedTask ed task) = task_id task"
  by (simp add: updatedTask_def)









section \<open>Ids\<close>

lemma addTask_tasks:
  "tasks (addTask now d1 d2 s) = tasks s \<or>
   (\<exists>task. tasks (addTask now d1 d2 s) = tasks s @ [task] \<and> task_id task = toString now)"
  by (simp add: addTask_def Let_def)

lemma issuedIds_clocks: "issuedIds evs s = map toString (addClocks evs s)"
proof (induction evs arbitrary: s)
  case Nil
  show ?case by simp
next
  case (Cons e es)
  show ?case
  proof (cases e)
    case (AddTask now d1 d2)
    from addTask_tasks [of now d1 d2 s] show ?thesis
      using AddTask Cons.IH by auto
  qed (simp_all add: Cons.IH)
qed

lemma saveEdit_ids: "map task_id (tasks (saveEdit s)) = map task_id (tasks s)"
  by (auto simp: saveEdit_def updatedTask_id split: option.splits)

lemma run_ids:
  "distinct (map task_id (tasks s) @ issuedIds evs s) \<Longrightarrow>
   distinct (map task_id (tasks (run evs s)))
   \<and> set (map task_id (tasks (run evs s))) \<subseteq> set (map task_id (tasks s)) \<union> set (issuedIds evs s)"
proof (induction evs arbitrary: s)
  case Nil
  then show ?case by simp
next
  case (Cons e es)
  have next_ok: "distinct (map task_id (tasks (step e s)) @ issuedIds es (step e s))
     \<and> set (map task_id (tasks (step e s))) \<union> set (issuedIds es (step e s))
         \<subseteq> set (map task_id (tasks s)) \<union> set (issuedIds (e # es) s)"
  proof (cases e)
    case (AddTask now d1 d2)
    from addTask_tasks [of now d1 d2 s] show ?thesis
    proof
      assume same: "tasks (addTask now d1 d2 s) = tasks s"
      then have "issuedIds (e # es) s = issuedIds es (step e s)"
        using AddTask by simp
      then show ?thesis using Cons.prems same AddTask by simp
    next
      assume "\<exists>task. tasks (addTask now d1 d2 s) = tasks s @ [task] \<and> task_id task = toString now"
      then obtain task where app: "tasks (addTask now d1 d2 s) = tasks s @ [task]"
        and tid: "task_id task = toString now" by blast
      then have "issuedIds (e # es) s = toString now # issuedIds es (step e s)"
        using AddTask by simp
      then show ?thesis using Cons.prems app tid AddTask by simp
    qed
  next
    case (DeleteTask i)
    then show ?thesis
      using Cons.prems by (auto simp: deleteTask_def distinct_map_filter)
  next
    case (StartEditing task)
    then show ?thesis using Cons.prems by (simp add: startEditing_def)
  next
    case SaveEdit
    then show ?thesis using Cons.prems by (simp add: saveEdit_ids)
  next
    case CancelEdit
    then show ?thesis using Cons.prems by (simp add: cancelEdit_def)
  qed (use Cons.prems in simp_all)
  from next_ok have d: "distinct (map task_id (tasks (step e s)) @ issuedIds es (step e s))"
    and sub: "set (map task_id (tasks (step e s))) \<union> set (issuedIds es (step e s))
         \<subseteq> set (map task_id (tasks s)) \<union> set (issuedIds (e # es) s)"
    by blast+
  from Cons.IH [OF d] have d': "distinct (map task_id (tasks (run es (step e s))))"
    and sub': "set (map task_id (tasks (run es (step e s))))
         \<subseteq> set (map task_id (tasks (step e s))) \<union> set (issuedIds es (step e s))"
    by blast+
  from d' order_trans [OF sub' sub] show ?case by simp
qed

text \<open>
  C4, as stated, fails: the id of a task is the reading of \<^verbatim>\<open>Date.now()\<close>, and two
  \<^verbatim>\<open>addTask\<close> calls that read the same millisecond give two tasks the same id; after the
  first is deleted, the second takes the id over.
\<close>

theorem same_clock_same_id:
  "map task_id (tasks (run clashEvents (initial 1716999000000 1716999000000)))
     = [''1717000000000'', ''1717000000000'']
   \<and> \<not> distinct (map task_id (tasks (run clashEvents (initial 1716999000000 1716999000000))))
   \<and> issuedIds reuseEvents (initial 1716999000000 1716999000000)
       = [''1717000000000'', ''1717000000000'']
   \<and> map name (tasks (run reuseEvents (initial 1716999000000 1716999000000))) = [''B'']"
  by code_simp

text \<open>
  C4, amended.  In every run of user actions from the empty store in which the readings of
  \<^verbatim>\<open>Date.now()\<close> of the \<^verbatim>\<open>addTask\<close> calls that add a task are pairwise different, no two
  tasks of the collection share an id, every id in the collection is one that an
  \<^verbatim>\<open>addTask\<close> issued, and the ids issued along the run are pairwise different: none is
  given out a second time, whether or not its task was deleted.
\<close>

theorem ids_unique_under_distinct_clocks:
  assumes "distinct (addClocks evs (initial d1 d2))"
  shows "distinct (map task_id (tasks (run evs (initial d1 d2))))
     \<and> set (map task_id (tasks (run evs (initial d1 d2)))) \<subseteq> set (issuedIds evs (initial d1 d2))
     \<and> distinct (issuedIds evs (initial d1 d2))"
proof -
  have d: "distinct (issuedIds evs (initial d1 d2))"
    unfolding issuedIds_clocks using assms
    by (simp add: distinct_map inj_on_def toString_inj)
  have "tasks (initial d1 d2) = []" by (simp add: initial_def)
  with d run_ids [of "initial d1 d2" evs] show ?thesis by simp
qed

theorem ids_unique_under_distinct_clocks_witness:
  "distinct (addClocks lifecycleEvents (initial 1716999000000 1716999000000))
   \<and> issuedIds lifecycleEvents (initial 1716999000000 1716999000000)
       = [''1717000000000'', ''1717000060000'', ''1717000120000'']
   \<and> distinct (map task_id (tasks (run lifecycleEvents (initial 1716999000000 1716999000000))))
   \<and> set (map task_id (tasks (run lifecycleEvents (initial 1716999000000 1716999000000))))
       \<subseteq> set (issuedIds lifecycleEvents (initial 1716999000000 1716999000000))
   \<and> distinct (issuedIds lifecycleEvents (initial 1716999000000 1716999000000))"
proof -
  have h: "distinct (addClocks lifecycleEvents (initial 1716999000000 1716999000000))"
    by code_simp
  have i: "issuedIds lifecycleEvents (initial 1716999000000 1716999000000)
       = [''1717000000000'', ''1717000060000'', ''1717000120000'']"
    by code_simp
  from ids_unique_under_distinct_clocks [OF h] h i show ?thesis
    by (intro conjI) simp_all
qed

section \<open>Committing an edit\<close>



















end
